theory Spec2Isabelle
  imports Main
begin

section \<open>Python values and built-ins\<close>

text \<open>
  The sources are dynamically typed: application details, GraphQL responses and the
  conversation state are dictionaries of arbitrary JSON-like values. They are modelled by
  one datatype of Python values. A dictionary is an association list with distinct keys,
  \<open>PTime\<close> stands for a \<^verbatim>\<open>datetime\<close>, \<open>PMessage role content\<close> for a LangChain message
  object. Numbers are integers. Characters of a Python string are the elements of a
  \<^typ>\<open>string\<close>, taken from the 8-bit range; case mapping and white space are those of
  Python on that range. The three letters whose capital lies outside the range (0xB5, 0xDF
  and 0xFF) keep their form where Python would capitalise them.
\<close>

datatype pyval =
    PNone
  | PBool bool
  | PInt int
  | PStr string
  | PList "pyval list"
  | PDict "(string \<times> pyval) list"
  | PTime nat
  | PMessage string string

datatype error =
    AttributeError
  | KeyError
  | TypeError
  | TimeoutError
  | OtherError

definition ebind :: "error + 'a \<Rightarrow> ('a \<Rightarrow> error + 'b) \<Rightarrow> error + 'b" where
  "ebind m f = (case m of Inl e \<Rightarrow> Inl e | Inr x \<Rightarrow> f x)"

text \<open>Truth value of an object, as \<^verbatim>\<open>if x:\<close> tests it.\<close>

fun truthy :: "pyval \<Rightarrow> bool" where
  "truthy PNone = False"
| "truthy (PBool b) = b"
| "truthy (PInt n) = (n \<noteq> 0)"
| "truthy (PStr s) = (s \<noteq> [])"
| "truthy (PList xs) = (xs \<noteq> [])"
| "truthy (PDict kvs) = (kvs \<noteq> [])"
| "truthy (PTime t) = True"
| "truthy (PMessage r c) = True"

text \<open>\<^verbatim>\<open>a or b\<close>\<close>

definition py_or :: "pyval \<Rightarrow> pyval \<Rightarrow> pyval" where
  "py_or a b = (if truthy a then a else b)"

text \<open>
  \<^verbatim>\<open>v.get(k, d)\<close>: only a dictionary has the method; on any other object the attribute
  lookup raises \<^verbatim>\<open>AttributeError\<close>. A key that is present with the value \<^verbatim>\<open>None\<close>
  yields \<^verbatim>\<open>None\<close>, not the default.
\<close>

definition py_get :: "pyval \<Rightarrow> string \<Rightarrow> pyval \<Rightarrow> error + pyval" where
  "py_get v k d =
     (case v of
        PDict kvs \<Rightarrow> Inr (case map_of kvs k of Some x \<Rightarrow> x | None \<Rightarrow> d)
      | _ \<Rightarrow> Inl AttributeError)"

text \<open>\<^verbatim>\<open>v[k]\<close> with a string key.\<close>

definition py_item :: "pyval \<Rightarrow> string \<Rightarrow> error + pyval" where
  "py_item v k =
     (case v of
        PDict kvs \<Rightarrow> (case map_of kvs k of Some x \<Rightarrow> Inr x | None \<Rightarrow> Inl KeyError)
      | _ \<Rightarrow> Inl TypeError)"

definition is_dict :: "pyval \<Rightarrow> bool" where
  "is_dict v = (case v of PDict kvs \<Rightarrow> True | _ \<Rightarrow> False)"

text \<open>\<^verbatim>\<open>list(v)\<close>\<close>

definition py_list :: "pyval \<Rightarrow> error + pyval list" where
  "py_list v =
     (case v of
        PList xs \<Rightarrow> Inr xs
      | PStr s \<Rightarrow> Inr (map (\<lambda>c. PStr [c]) s)
      | PDict kvs \<Rightarrow> Inr (map (\<lambda>kv. PStr (fst kv)) kvs)
      | _ \<Rightarrow> Inl TypeError)"

text \<open>\<^verbatim>\<open>s.startswith(p)\<close>\<close>

definition startswith :: "string \<Rightarrow> string \<Rightarrow> bool" where
  "startswith s p = (take (length p) s = p)"

text \<open>
  \<^verbatim>\<open>s.split(c)\<close> for a one-character separator: every occurrence of the separator
  cuts, empty pieces are kept, and the result is never empty (\<^verbatim>\<open>"".split("-") == [""]\<close>).
\<close>

fun split_on :: "char \<Rightarrow> string \<Rightarrow> string list" where
  "split_on c [] = [[]]"
| "split_on c (x # xs) =
     (if x = c then [] # split_on c xs
      else (let ps = split_on c xs in (x # hd ps) # tl ps))"

text \<open>\<^verbatim>\<open>sep.join(parts)\<close> for a list of strings.\<close>

fun join :: "string \<Rightarrow> string list \<Rightarrow> string" where
  "join sep [] = []"
| "join sep [p] = p"
| "join sep (p # q # ps) = p @ sep @ join sep (q # ps)"

text \<open>
  \<^verbatim>\<open>sep.join(xs)\<close> for a list of objects: every element has to be a string,
  otherwise \<^verbatim>\<open>TypeError\<close>.
\<close>

fun str_items :: "pyval list \<Rightarrow> error + string list" where
  "str_items [] = Inr []"
| "str_items (PStr s # xs) = ebind (str_items xs) (\<lambda>ss. Inr (s # ss))"
| "str_items (x # xs) = Inl TypeError"

definition py_join :: "string \<Rightarrow> pyval list \<Rightarrow> error + string" where
  "py_join sep xs = ebind (str_items xs) (\<lambda>ss. Inr (join sep ss))"

text \<open>\<^verbatim>\<open>s.lower()\<close>, \<^verbatim>\<open>s.title()\<close>, \<^verbatim>\<open>s.strip()\<close>, \<^verbatim>\<open>s.replace(old, new)\<close>\<close>

definition upper_letters :: string where
  "upper_letters =
     ''ABCDEFGHIJKLMNOPQRSTUVWXYZ'' @
     [CHR 0xC0, CHR 0xC1, CHR 0xC2, CHR 0xC3, CHR 0xC4, CHR 0xC5, CHR 0xC6, CHR 0xC7,
      CHR 0xC8, CHR 0xC9, CHR 0xCA, CHR 0xCB, CHR 0xCC, CHR 0xCD, CHR 0xCE, CHR 0xCF,
      CHR 0xD0, CHR 0xD1, CHR 0xD2, CHR 0xD3, CHR 0xD4, CHR 0xD5, CHR 0xD6, CHR 0xD8,
      CHR 0xD9, CHR 0xDA, CHR 0xDB, CHR 0xDC, CHR 0xDD, CHR 0xDE]"

definition lower_letters :: string where
  "lower_letters =
     ''abcdefghijklmnopqrstuvwxyz'' @
     [CHR 0xE0, CHR 0xE1, CHR 0xE2, CHR 0xE3, CHR 0xE4, CHR 0xE5, CHR 0xE6, CHR 0xE7,
      CHR 0xE8, CHR 0xE9, CHR 0xEA, CHR 0xEB, CHR 0xEC, CHR 0xED, CHR 0xEE, CHR 0xEF,
      CHR 0xF0, CHR 0xF1, CHR 0xF2, CHR 0xF3, CHR 0xF4, CHR 0xF5, CHR 0xF6, CHR 0xF8,
      CHR 0xF9, CHR 0xFA, CHR 0xFB, CHR 0xFC, CHR 0xFD, CHR 0xFE]"

definition lower_char :: "char \<Rightarrow> char" where
  "lower_char c =
     (case map_of (zip upper_letters lower_letters) c of Some l \<Rightarrow> l | None \<Rightarrow> c)"

definition upper_char :: "char \<Rightarrow> char" where
  "upper_char c =
     (case map_of (zip lower_letters upper_letters) c of Some u \<Rightarrow> u | None \<Rightarrow> c)"

text \<open>The cased characters: the letters above, and those that are their own capital here.\<close>

definition is_alpha :: "char \<Rightarrow> bool" where
  "is_alpha c =
     (lower_char c \<noteq> c \<or> upper_char c \<noteq> c
      \<or> c \<in> set [CHR 0xAA, CHR 0xB5, CHR 0xBA, CHR 0xDF, CHR 0xFF])"

definition lower_str :: "string \<Rightarrow> string" where
  "lower_str s = map lower_char s"

fun title_from :: "bool \<Rightarrow> string \<Rightarrow> string" where
  "title_from prev [] = []"
| "title_from prev (c # cs) =
     (if is_alpha c
      then (if prev then lower_char c else upper_char c) # title_from True cs
      else c # title_from False cs)"

definition is_space :: "char \<Rightarrow> bool" where
  "is_space c =
     (c \<in> set [CHR 0x09, CHR 0x0A, CHR 0x0B, CHR 0x0C, CHR 0x0D, CHR 0x1C, CHR 0x1D,
                CHR 0x1E, CHR 0x1F, CHR 0x20, CHR 0x85, CHR 0xA0])"

definition strip :: "string \<Rightarrow> string" where
  "strip s = rev (dropWhile is_space (rev (dropWhile is_space s)))"

fun replace_from :: "string \<Rightarrow> string \<Rightarrow> nat \<Rightarrow> string \<Rightarrow> string" where
  "replace_from old new skip [] = []"
| "replace_from old new skip (c # cs) =
     (if skip > 0 then replace_from old new (skip - 1) cs
      else if old \<noteq> [] \<and> startswith (c # cs) old
      then new @ replace_from old new (length old - 1) cs
      else c # replace_from old new 0 cs)"

definition replace :: "string \<Rightarrow> string \<Rightarrow> string \<Rightarrow> string" where
  "replace s old new = replace_from old new 0 s"

definition py_lower :: "pyval \<Rightarrow> error + string" where
  "py_lower v = (case v of PStr s \<Rightarrow> Inr (lower_str s) | _ \<Rightarrow> Inl AttributeError)"

definition py_title :: "pyval \<Rightarrow> error + string" where
  "py_title v = (case v of PStr s \<Rightarrow> Inr (title_from False s) | _ \<Rightarrow> Inl AttributeError)"

definition py_strip :: "pyval \<Rightarrow> error + string" where
  "py_strip v = (case v of PStr s \<Rightarrow> Inr (strip s) | _ \<Rightarrow> Inl AttributeError)"

section \<open>Identity resolution from the room name\<close>

text \<open>
  \<^verbatim>\<open>entrypoint\<close>, agent.py lines 42-50: the application id is \<^verbatim>\<open>None\<close> unless the room
  name starts with \<^verbatim>\<open>interview-\<close> and the rest has at least five hyphen-delimited parts;
  then it is the first five parts joined by hyphens.
\<close>

definition entrypoint_application_id :: "string \<Rightarrow> string option" where
  "entrypoint_application_id room_id =
     (if startswith room_id ''interview-'' then
        (let parts = split_on CHR ''-'' (drop 10 room_id) in
         if length parts \<ge> 5 then Some (join ''-'' (take 5 parts)) else None)
      else None)"

text \<open>
  \<^verbatim>\<open>GraphQLClient.extract_interview_id_from_room_name\<close>, graphql_client.py lines
  161-178: the same parse, but the fallback is the full room name.
\<close>

definition extract_interview_id_from_room_name :: "string \<Rightarrow> string" where
  "extract_interview_id_from_room_name room_name =
     (if startswith room_name ''interview-'' \<and>
         length (split_on CHR ''-'' (drop 10 room_name)) \<ge> 5
      then join ''-'' (take 5 (split_on CHR ''-'' (drop 10 room_name)))
      else room_name)"

text \<open>
  The naming convention \<^verbatim>\<open>interview-{uuid}-{suffix}\<close> of the room names: a UUID is five
  groups of 8, 4, 4, 4 and 12 hexadecimal digits.
\<close>

definition is_hex :: "char \<Rightarrow> bool" where
  "is_hex c = (c \<in> set ''0123456789abcdefABCDEF'')"

definition uuid_group :: "nat \<Rightarrow> string \<Rightarrow> bool" where
  "uuid_group n g = (length g = n \<and> list_all is_hex g)"

definition matches_convention :: "string \<Rightarrow> bool" where
  "matches_convention room =
     (startswith room ''interview-'' \<and>
      (case split_on CHR ''-'' (drop 10 room) of
         g1 # g2 # g3 # g4 # g5 # suffix # rest \<Rightarrow>
           uuid_group 8 g1 \<and> uuid_group 4 g2 \<and> uuid_group 4 g3 \<and>
           uuid_group 4 g4 \<and> uuid_group 12 g5
       | _ \<Rightarrow> False))"

section \<open>The GraphQL client\<close>

text \<open>
  The backend of record is reached through one HTTP POST per operation. The transport is a
  parameter: given the operation and its variables it answers from, and changes, a backend
  state \<open>'b\<close>. \<open>HttpRaised\<close> is a request that raised (connection error, undecodable body).
\<close>

datatype http_result = HttpRaised | HttpResponse nat pyval

type_synonym 'b transport = "string \<Rightarrow> pyval \<Rightarrow> 'b \<Rightarrow> http_result \<times> 'b"

text \<open>
  \<^verbatim>\<open>GraphQLClient.execute_query\<close>, graphql_client.py lines 27-60: \<^verbatim>\<open>None\<close> on an
  exception, on a status other than 200 and when the body has an \<^verbatim>\<open>errors\<close> key;
  otherwise \<^verbatim>\<open>result.get('data')\<close>. A body that is not a dictionary ends in \<^verbatim>\<open>None\<close>
  too, through the membership test or the exception handler.
\<close>

definition execute_query :: "'b transport \<Rightarrow> string \<Rightarrow> pyval \<Rightarrow> 'b \<Rightarrow> pyval \<times> 'b" where
  "execute_query post query variables b =
     (case post query variables b of
        (HttpRaised, b') \<Rightarrow> (PNone, b')
      | (HttpResponse status result, b') \<Rightarrow>
          (if status \<noteq> 200 then PNone
           else (case result of
                   PDict kvs \<Rightarrow>
                     (if map_of kvs ''errors'' \<noteq> None then PNone
                      else (case map_of kvs ''data'' of Some d \<Rightarrow> d | None \<Rightarrow> PNone))
                 | _ \<Rightarrow> PNone),
           b'))"

text \<open>The \<^verbatim>\<open>variables\<close> of the \<^verbatim>\<open>CreateInterview\<close> mutation, lines 202-210.\<close>

definition create_interview_variables :: "string \<Rightarrow> string \<Rightarrow> pyval" where
  "create_interview_variables room_id video_url =
     PDict [(''input'', PDict
       [(''applicationId'', PStr (extract_interview_id_from_room_name room_id)),
        (''roomId'', PStr room_id),
        (''recordingUrl'', PStr video_url),
        (''type'', PStr ''VIDEO''),
        (''status'', PStr ''STARTED'')])]"

text \<open>
  \<^verbatim>\<open>GraphQLClient.create_interview_with_video\<close>, lines 180-228. Every exception inside
  (a response without \<^verbatim>\<open>id\<close> or \<^verbatim>\<open>recordingUrl\<close>, a response of another shape) is
  caught and turned into \<^verbatim>\<open>None\<close>.
\<close>

definition create_interview_with_video ::
  "'b transport \<Rightarrow> string \<Rightarrow> string \<Rightarrow> string \<Rightarrow> 'b \<Rightarrow> pyval \<times> 'b" where
  "create_interview_with_video post room_id video_url job_id b =
     (let (result, b') =
            execute_query post ''CreateInterview'' (create_interview_variables room_id video_url) b;
          outcome =
            (if truthy result then
               ebind (py_get result ''createInterview'' PNone) (\<lambda>interview.
                 if truthy interview then
                   ebind (py_item interview ''id'') (\<lambda>interview_id.
                   ebind (py_item interview ''recordingUrl'') (\<lambda>url.
                   Inr interview_id))
                 else Inr PNone)
             else Inr PNone)
      in (case outcome of Inl e \<Rightarrow> PNone | Inr v \<Rightarrow> v, b'))"

text \<open>
  \<^verbatim>\<open>GraphQLClient.save_video_url_to_interview\<close>, lines 230-241: "Save video URL to an
  interview by creating a new interview record".
\<close>

definition save_video_url_to_interview ::
  "'b transport \<Rightarrow> string \<Rightarrow> string \<Rightarrow> string \<Rightarrow> 'b \<Rightarrow> pyval \<times> 'b" where
  "save_video_url_to_interview post room_id video_url job_id b =
     create_interview_with_video post room_id video_url job_id b"

text \<open>\<^verbatim>\<open>GraphQLClient.create_transcript\<close>, lines 243-294.\<close>

definition create_transcript_variables ::
  "pyval \<Rightarrow> string \<Rightarrow> string \<Rightarrow> string \<Rightarrow> int \<Rightarrow> pyval" where
  "create_transcript_variables interview_id content speaker timestamp sequence_number =
     PDict [(''input'', PDict
       [(''interviewId'', interview_id),
        (''content'', PStr content),
        (''speaker'', PStr speaker),
        (''timestamp'', PStr timestamp),
        (''sequenceNumber'', PInt sequence_number)])]"

definition create_transcript ::
  "'b transport \<Rightarrow> pyval \<Rightarrow> string \<Rightarrow> string \<Rightarrow> string \<Rightarrow> int \<Rightarrow> 'b \<Rightarrow> pyval \<times> 'b" where
  "create_transcript post interview_id content speaker timestamp sequence_number b =
     (let (result, b') =
            execute_query post ''CreateTranscript''
              (create_transcript_variables interview_id content speaker timestamp sequence_number) b;
          outcome =
            (if truthy result then
               ebind (py_get result ''createTranscript'' PNone) (\<lambda>transcript.
                 if truthy transcript then py_item transcript ''id'' else Inr PNone)
             else Inr PNone)
      in (case outcome of Inl e \<Rightarrow> PNone | Inr v \<Rightarrow> v, b'))"


section \<open>The conversation state and the assistant node\<close>

text \<open>
  \<^verbatim>\<open>AssistantState\<close> (state/assistant_state.py) is a dictionary; a key may be absent.
  The checkpointed state of a thread is a map from keys to values.
\<close>

type_synonym assistant_state = "string \<rightharpoonup> pyval"

text \<open>\<^verbatim>\<open>state.get(k, d)\<close>\<close>

definition state_get :: "assistant_state \<Rightarrow> string \<Rightarrow> pyval \<Rightarrow> pyval" where
  "state_get st k d = (case st k of Some v \<Rightarrow> v | None \<Rightarrow> d)"

text \<open>The keys that \<^verbatim>\<open>AssistantState\<close> declares.\<close>

definition state_keys :: "string list" where
  "state_keys =
     [''messages'', ''session_id'', ''current_question'', ''interview_status'',
      ''participant_name'', ''start_time'', ''last_updated'', ''questions_asked'',
      ''responses_received'', ''application_details'', ''interview_language'']"

text \<open>\<^verbatim>\<open>operator.add\<close>, the reducer that the \<^verbatim>\<open>messages\<close> key is annotated with.\<close>

definition py_add :: "pyval \<Rightarrow> pyval \<Rightarrow> error + pyval" where
  "py_add a b =
     (case (a, b) of
        (PList xs, PList ys) \<Rightarrow> Inr (PList (xs @ ys))
      | (PStr xs, PStr ys) \<Rightarrow> Inr (PStr (xs @ ys))
      | (PInt x, PInt y) \<Rightarrow> Inr (PInt (x + y))
      | _ \<Rightarrow> Inl TypeError)"

text \<open>
  Committing a partial update to the checkpointed state. The merge is carried out by the
  graph library as the declaration of \<^verbatim>\<open>AssistantState\<close> prescribes: \<^verbatim>\<open>messages\<close> is
  annotated with the reducer \<^verbatim>\<open>operator.add\<close>, so the update is added to the stored value,
  which is the empty list as long as nothing has been written; every other declared key
  holds the last value written; keys that the update does not supply, and keys that are
  not declared, leave the state as it is.
\<close>

definition stored_messages :: "assistant_state \<Rightarrow> pyval" where
  "stored_messages st = (case st ''messages'' of Some v \<Rightarrow> v | None \<Rightarrow> PList [])"

definition commit :: "assistant_state \<Rightarrow> (string \<times> pyval) list \<Rightarrow> error + assistant_state" where
  "commit st upd =
     ebind (case map_of upd ''messages'' of
              None \<Rightarrow> Inr (stored_messages st)
            | Some new \<Rightarrow> py_add (stored_messages st) new)
       (\<lambda>msgs. Inr (\<lambda>k. if k = ''messages'' then Some msgs
                         else if k \<in> set state_keys
                         then (case map_of upd k of Some v \<Rightarrow> Some v | None \<Rightarrow> st k)
                         else st k))"

text \<open>
  What the node takes from outside: \<open>str_of\<close> is the built-in \<^verbatim>\<open>str()\<close> on objects that
  are not strings, \<open>arabic_prompt\<close> the Arabic template of assistant_node.py lines 82-83 as
  a function of the company name, \<open>llm_invoke\<close> the language model (the answer, or the
  exception it raised), \<open>datetime_now\<close> the clock.
\<close>

record env =
  str_of :: "pyval \<Rightarrow> string"
  arabic_prompt :: "string \<Rightarrow> string"
  llm_invoke :: "pyval list \<Rightarrow> error + pyval"
  datetime_now :: nat

text \<open>An object inside an f-string.\<close>

definition py_str :: "env \<Rightarrow> pyval \<Rightarrow> string" where
  "py_str e v = (case v of PStr s \<Rightarrow> s | _ \<Rightarrow> str_of e v)"

text \<open>
  One of the four list attributes of the CV analysis, assistant_node.py lines 40-58:
  when the attribute is truthy and a list, its first \<open>n\<close> items joined by \<open>sep\<close>.
\<close>

definition cv_list_part ::
  "string \<Rightarrow> string \<Rightarrow> nat \<Rightarrow> pyval \<Rightarrow> string \<Rightarrow> error + string list" where
  "cv_list_part label sep n results key =
     ebind (py_get results key PNone) (\<lambda>v.
       if truthy v then
         (case v of
            PList xs \<Rightarrow> ebind (py_join sep (take n xs)) (\<lambda>j. Inr [label @ j])
          | _ \<Rightarrow> Inr [])
       else Inr [])"

text \<open>\<^verbatim>\<open>cv_summary_parts\<close>, assistant_node.py lines 28-64.\<close>

definition cv_summary_parts :: "env \<Rightarrow> pyval \<Rightarrow> error + string list" where
  "cv_summary_parts e application_details =
     ebind (py_get application_details ''cvScore'' PNone) (\<lambda>s1.
     ebind (py_get application_details ''cv_score'' PNone) (\<lambda>s2.
     ebind (py_get application_details ''cvAnalysisScore'' PNone) (\<lambda>s3.
     ebind (py_get application_details ''cvAnalysisResults'' PNone) (\<lambda>r1.
     ebind (py_get application_details ''cv_analysis_results'' PNone) (\<lambda>r2.
       (let cv_score = py_or s1 (py_or s2 s3);
            cv_analysis_results = py_or r1 r2;
            score_part = (if cv_score \<noteq> PNone
                          then [''CV Match Score: '' @ py_str e cv_score @ ''/100'']
                          else [])
        in if truthy cv_analysis_results \<and> is_dict cv_analysis_results then
             ebind (py_get cv_analysis_results ''experience_summary'' PNone) (\<lambda>es.
             ebind (cv_list_part ''Matching Skills: '' '', '' 8
                      cv_analysis_results ''skills_matched'') (\<lambda>p2.
             ebind (cv_list_part ''Missing Skills: '' '', '' 6
                      cv_analysis_results ''skills_missing'') (\<lambda>p3.
             ebind (cv_list_part ''Key Strengths: '' ''; '' 4
                      cv_analysis_results ''strengths'') (\<lambda>p4.
             ebind (cv_list_part ''Areas of Concern: '' ''; '' 4
                      cv_analysis_results ''concerns'') (\<lambda>p5.
             ebind (py_get cv_analysis_results ''recommendation'' PNone) (\<lambda>rc.
             ebind (if truthy rc
                    then ebind (py_title rc) (\<lambda>t. Inr [''Overall Recommendation: '' @ t])
                    else Inr []) (\<lambda>p6.
               Inr (score_part
                    @ (if truthy es then [''Experience Summary: '' @ py_str e es] else [])
                    @ p2 @ p3 @ p4 @ p5 @ p6))))))))
           else if truthy cv_analysis_results
           then Inr (score_part @ [''CV Analysis: '' @ take 600 (py_str e cv_analysis_results)])
           else Inr score_part))))))"

text \<open>The system prompt, assistant_node.py lines 17-91.\<close>

definition default_system_prompt :: string where
  "default_system_prompt = ''You are a helpful AI assistant.''"

definition arabic_directive :: string where
  "arabic_directive =
     ''\<newline>\<newline>IMPORTANT: You must conduct this interview entirely in Arabic. Speak, ask questions, and respond only in Arabic.''"

definition english_directive :: string where
  "english_directive =
     ''\<newline>\<newline>IMPORTANT: You must conduct this interview entirely in English.''"

definition english_prompt :: "string \<Rightarrow> string" where
  "english_prompt company_name =
     ''You are a professional interviewer at '' @ company_name @ ''. \<newline>''
     @ ''Conduct a thorough and engaging interview to assess the candidate's qualifications, \<newline>''
     @ ''skills, and cultural fit for the position. Be professional, direct, and insightful.''"

definition system_prompt_of :: "env \<Rightarrow> pyval \<Rightarrow> error + string" where
  "system_prompt_of e application_details =
     (if truthy application_details then
        ebind (py_get application_details ''job'' PNone) (\<lambda>job_details.
          if truthy job_details then
            ebind (py_get job_details ''interviewLanguage'' (PStr ''english'')) (\<lambda>lang.
            ebind (py_lower lang) (\<lambda>interview_language.
            ebind (py_get job_details ''company'' (PDict [])) (\<lambda>company.
            ebind (py_get company ''name'' (PStr ''the company'')) (\<lambda>company_name.
            ebind (cv_summary_parts e application_details) (\<lambda>parts.
            ebind (py_get job_details ''interviewPrompt'' PNone) (\<lambda>interview_prompt.
            ebind (if truthy interview_prompt
                   then ebind (py_strip interview_prompt) (\<lambda>stripped. Inr (stripped \<noteq> []))
                   else Inr False) (\<lambda>use_prompt.
            ebind (if use_prompt then
                     (case (interview_prompt, company_name) of
                        (PStr ip, PStr cn) \<Rightarrow>
                          Inr (replace ip ''{company_name}'' cn
                               @ (if interview_language = ''arabic'' then arabic_directive
                                  else english_directive))
                      | _ \<Rightarrow> Inl TypeError)
                   else if interview_language = ''arabic''
                   then Inr (arabic_prompt e (py_str e company_name))
                   else Inr (english_prompt (py_str e company_name))) (\<lambda>system_prompt.
              (let cv_summary = join ''\<newline>'' parts in
               Inr (if cv_summary \<noteq> []
                    then ''Candidate CV summary:\<newline>'' @ cv_summary @ ''\<newline>\<newline>''
                         @ system_prompt
                    else system_prompt))))))))))
          else Inr default_system_prompt)
      else Inr default_system_prompt)"

text \<open>
  \<^verbatim>\<open>call_llm\<close>, assistant_node.py lines 9-118: the partial update that the node returns.
\<close>

definition call_llm :: "env \<Rightarrow> assistant_state \<Rightarrow> error + (string \<times> pyval) list" where
  "call_llm e st =
     (let session_id = state_get st ''session_id'' (PStr ''unknown'');
          application_details = state_get st ''application_details'' PNone
      in ebind (system_prompt_of e application_details) (\<lambda>system_prompt.
         ebind (case st ''messages'' of None \<Rightarrow> Inl KeyError | Some m \<Rightarrow> py_list m) (\<lambda>history.
         ebind (llm_invoke e (PMessage ''system'' system_prompt # history)) (\<lambda>message.
           Inr [(''messages'', PList [message]),
                (''last_updated'', PTime (datetime_now e)),
                (''current_question'', state_get st ''current_question'' (PInt 0)),
                (''session_id'', session_id),
                (''participant_name'', state_get st ''participant_name'' PNone),
                (''interview_status'', state_get st ''interview_status'' (PStr ''active'')),
                (''start_time'', state_get st ''start_time'' PNone),
                (''questions_asked'', state_get st ''questions_asked'' (PList [])),
                (''responses_received'', state_get st ''responses_received'' (PList [])),
                (''application_details'', state_get st ''application_details'' PNone),
                (''interview_language'',
                   state_get st ''interview_language'' (PStr ''english''))]))))"

text \<open>
  One generation turn on a thread: the input messages of the turn are added to the state,
  the node runs on the result, and its update is committed.
\<close>

definition generation_turn ::
  "env \<Rightarrow> assistant_state \<Rightarrow> pyval list \<Rightarrow> error + assistant_state" where
  "generation_turn e st input =
     ebind (commit st [(''messages'', PList input)]) (\<lambda>st1.
     ebind (call_llm e st1) (\<lambda>upd. commit st1 upd))"

fun run_turns :: "env \<Rightarrow> assistant_state \<Rightarrow> pyval list list \<Rightarrow> error + assistant_state" where
  "run_turns e st [] = Inr st"
| "run_turns e st (input # inputs) =
     ebind (generation_turn e st input) (\<lambda>st'. run_turns e st' inputs)"

text \<open>
  The fields of \<^verbatim>\<open>SessionMetadata\<close> that \<^verbatim>\<open>create_initial_session_state\<close> reads. The
  class belongs to the session manager, whose declaration is not among these sources; the
  fields are taken as the function uses them.
\<close>

record session_metadata =
  md_session_id :: pyval
  md_participant_name :: pyval
  md_start_time :: pyval
  md_application_details :: pyval

text \<open>\<^verbatim>\<open>create_initial_session_state\<close>, utils/session_utils.py lines 7-41.\<close>

definition create_initial_session_state ::
  "nat \<Rightarrow> session_metadata \<Rightarrow> error + (string \<times> pyval) list" where
  "create_initial_session_state now md =
     (let ad = md_application_details md in
      ebind (if truthy ad then
               ebind (py_get ad ''job'' PNone) (\<lambda>job.
                 if truthy job
                 then ebind (py_get job ''interviewLanguage'' (PStr ''english'')) py_lower
                 else Inr ''english'')
             else Inr ''english'') (\<lambda>language.
      ebind (if truthy ad then
               ebind (py_get ad ''cvScore'' PNone) (\<lambda>s1.
               ebind (py_get ad ''cv_score'' PNone) (\<lambda>s2.
               ebind (py_get ad ''cvAnalysisScore'' PNone) (\<lambda>s3.
               ebind (py_get ad ''cvAnalysisResults'' PNone) (\<lambda>r1.
               ebind (py_get ad ''cv_analysis_results'' PNone) (\<lambda>r2.
                 Inr (py_or s1 (py_or s2 s3), py_or r1 r2))))))
             else Inr (PNone, PNone)) (\<lambda>(cv_score, cv_analysis_results).
        Inr [(''messages'', PList [PMessage ''human'' ''Start conversation'']),
             (''session_id'', md_session_id md),
             (''current_question'', PInt 0),
             (''interview_status'', PStr ''active''),
             (''participant_name'', md_participant_name md),
             (''start_time'', md_start_time md),
             (''last_updated'', PTime now),
             (''questions_asked'', PList []),
             (''responses_received'', PList []),
             (''application_details'', ad),
             (''interview_language'', PStr language),
             (''cv_score'', cv_score),
             (''cv_analysis_results'', cv_analysis_results)])))"

section \<open>The recording manager\<close>

text \<open>
  The S3 address of a recording, as both agent.py line 69 and recording_manager.py lines
  111 and 147 build it from bucket, region, session id and timestamp.
\<close>

definition recording_s3_url :: "string \<Rightarrow> string \<Rightarrow> string \<Rightarrow> string \<Rightarrow> string" where
  "recording_s3_url bucket_name region session_id timestamp =
     ''https://'' @ bucket_name @ ''.s3.'' @ region @ ''.amazonaws.com/interviews/''
       @ session_id @ ''/'' @ timestamp @ ''/recording.mp4''"

text \<open>
  \<^verbatim>\<open>RecordingManager.start_recording\<close>, recording_manager.py lines 88-159. The egress
  service is the parameter \<open>egress\<close>: the egress id, or the exception that the request or
  the closing of its client raised. Every exception is caught and gives \<^verbatim>\<open>None\<close>.
  \<open>context_room\<close> is the room name of the job context.
\<close>

definition start_recording ::
  "string \<Rightarrow> string \<Rightarrow> string \<Rightarrow> string \<Rightarrow> string \<Rightarrow> string \<Rightarrow> string \<Rightarrow> error + string
     \<Rightarrow> string option" where
  "start_recording bucket_name region context_room job_id room_name session_id timestamp egress =
     (let room_name = (if room_name = [] then context_room else room_name) in
      if room_name = [] then None
      else
        (let session_id =
               (if session_id = [] then ''session_'' @ room_name @ ''_'' @ job_id
                else session_id)
         in (case egress of
               Inl e \<Rightarrow> None
             | Inr egress_id \<Rightarrow> Some (recording_s3_url bucket_name region session_id timestamp))))"

text \<open>
  \<^verbatim>\<open>RecordingManager.save_video_to_backend\<close>, lines 201-233: the interview id when it
  is truthy, \<^verbatim>\<open>None\<close> otherwise.
\<close>

definition save_video_to_backend ::
  "'b transport \<Rightarrow> string \<Rightarrow> string \<Rightarrow> string \<Rightarrow> string \<Rightarrow> string \<Rightarrow> 'b \<Rightarrow> pyval \<times> 'b" where
  "save_video_to_backend post bucket_name region room_name job_id video_url b =
     (let video_url_to_save =
            (if video_url \<noteq> [] then video_url
             else ''https://'' @ bucket_name @ ''.s3.'' @ region @ ''.amazonaws.com/recordings/''
                    @ room_name @ ''_'' @ job_id @ ''.mp4'');
          (interview_id, b') = save_video_url_to_interview post room_name video_url_to_save job_id b
      in (if truthy interview_id then interview_id else PNone, b'))"


text \<open>
  \<^verbatim>\<open>RecordingManager.save_transcript_entry\<close>, lines 247-279; \<open>now\<close> is the ISO text of
  \<^verbatim>\<open>datetime.now()\<close>.
\<close>

definition save_transcript_entry ::
  "'b transport \<Rightarrow> string \<Rightarrow> pyval \<Rightarrow> string \<Rightarrow> string \<Rightarrow> int \<Rightarrow> 'b \<Rightarrow> pyval \<times> 'b" where
  "save_transcript_entry post now interview_id content speaker sequence_number b =
     (let (transcript_id, b') =
            create_transcript post interview_id content speaker (now @ ''Z'') sequence_number b
      in (if truthy transcript_id then transcript_id else PNone, b'))"

section \<open>The session: setup, utterance handler, teardown\<close>

text \<open>
  The outcome of \<^verbatim>\<open>asyncio.wait_for(recording_manager.start_recording(...), timeout=10.0)\<close>:
  the call returned within the budget, or \<^verbatim>\<open>wait_for\<close> raised.
\<close>

datatype capture = Returned "string option" | Raised error

text \<open>agent.py lines 59-82: the URL to register.\<close>

definition entrypoint_video_url ::
  "string \<Rightarrow> string \<Rightarrow> string \<Rightarrow> string \<Rightarrow> capture \<Rightarrow> string" where
  "entrypoint_video_url bucket_name region session_id timestamp capture_result =
     (let video_url_to_save = recording_s3_url bucket_name region session_id timestamp in
      case capture_result of
        Returned (Some recording_url) \<Rightarrow>
          (if recording_url \<noteq> [] then recording_url else video_url_to_save)
      | Returned None \<Rightarrow> video_url_to_save
      | Raised e \<Rightarrow> video_url_to_save)"

text \<open>
  The local variables of \<^verbatim>\<open>entrypoint\<close> (agent.py) that its nested handlers share.
\<close>

record session =
  session_id :: string
  video_url_to_save :: string
  interview_id :: pyval
  thread_id :: pyval
  sequence_counter :: int

text \<open>agent.py lines 84-102 and 151: linkage and the thread id.\<close>

definition entrypoint_link ::
  "'b transport \<Rightarrow> string \<Rightarrow> string \<Rightarrow> string \<Rightarrow> string \<Rightarrow> string \<Rightarrow> string \<Rightarrow> capture
     \<Rightarrow> 'b \<Rightarrow> session \<times> 'b" where
  "entrypoint_link post bucket_name region room_name job_id sid timestamp capture_result b =
     (let url = entrypoint_video_url bucket_name region sid timestamp capture_result;
          (iid, b') =
            (if url \<noteq> [] then save_video_to_backend post bucket_name region room_name job_id url b
             else (PNone, b))
      in (\<lparr>session_id = sid, video_url_to_save = url, interview_id = iid,
           thread_id = (if truthy iid then iid else PStr sid), sequence_counter = 0\<rparr>, b'))"

text \<open>
  The item of a \<^verbatim>\<open>ConversationItemAddedEvent\<close>: its text (possibly \<^verbatim>\<open>None\<close>) and role.
\<close>

record conversation_item =
  text_content :: "string option"
  role :: string

text \<open>The arguments of one call of \<^verbatim>\<open>save_transcript_entry\<close>.\<close>

record transcript_call =
  call_interview_id :: pyval
  call_content :: string
  call_speaker :: string
  call_sequence_number :: int

text \<open>
  \<^verbatim>\<open>handle_conversation_item\<close> / \<^verbatim>\<open>async_handler\<close>, agent.py lines 153-180. The task
  runs without suspension from its start to the call of \<^verbatim>\<open>save_transcript_entry\<close>, whose
  arguments are evaluated before the first \<^verbatim>\<open>await\<close>; what follows the \<^verbatim>\<open>await\<close> only
  logs. The result is the new session, the call that was made (if any) and the backend.
\<close>

definition async_handler ::
  "'b transport \<Rightarrow> string \<Rightarrow> session \<Rightarrow> conversation_item \<Rightarrow> 'b
     \<Rightarrow> session \<times> transcript_call option \<times> 'b" where
  "async_handler post now s item b =
     (case text_content item of
        None \<Rightarrow> (s, None, b)
      | Some txt \<Rightarrow>
          (if \<not> truthy (interview_id s) \<or> txt = [] \<or> strip txt = [] then (s, None, b)
           else
             (let s' = s\<lparr>sequence_counter := sequence_counter s + 1\<rparr>;
                  content = strip txt;
                  speaker = (if role item = ''assistant'' then ''AI'' else ''CANDIDATE'');
                  (transcript_id, b') =
                    save_transcript_entry post now (interview_id s') content speaker
                      (sequence_counter s') b
              in (s',
                  Some \<lparr>call_interview_id = interview_id s', call_content = content,
                        call_speaker = speaker, call_sequence_number = sequence_counter s'\<rparr>,
                  b'))))"

text \<open>Handling a series of notifications, in the order in which their tasks start.\<close>

fun handle_all ::
  "'b transport \<Rightarrow> string \<Rightarrow> session \<Rightarrow> conversation_item list \<Rightarrow> 'b
     \<Rightarrow> session \<times> transcript_call list \<times> 'b" where
  "handle_all post now s [] b = (s, [], b)"
| "handle_all post now s (item # items) b =
     (case async_handler post now s item b of
        (s', call, b') \<Rightarrow>
          (case handle_all post now s' items b' of
             (s'', calls, b'') \<Rightarrow>
               (s'', (case call of None \<Rightarrow> calls | Some c \<Rightarrow> c # calls), b'')))"






section \<open>Reference backends\<close>

text \<open>
  The backend of record is not part of these sources; the transport is a parameter of the
  client. These are concrete backends for the instances. The first keeps every interview
  it is asked to create, under an id no earlier record has, and accepts any application id.
\<close>

definition fresh_id :: "nat \<Rightarrow> string" where
  "fresh_id n = ''rec-'' @ replicate (Suc n) CHR ''i''"






text \<open>A backend that cannot be reached: every request raises.\<close>

definition unreachable_backend :: "unit transport" where
  "unreachable_backend query variables b = (HttpRaised, b)"


section \<open>Notions used in the statements\<close>

text \<open>
  The text of a notification that passes the guard of \<^verbatim>\<open>async_handler\<close> (line 158): the
  item has a text, and it is not empty once stripped. This is the content that is logged.
\<close>

definition finalized_text :: "conversation_item \<Rightarrow> string option" where
  "finalized_text item =
     (case text_content item of
        None \<Rightarrow> None
      | Some txt \<Rightarrow> (if strip txt = [] then None else Some (strip txt)))"



definition demo_session :: session where
  "demo_session = \<lparr>session_id = ''interview-room-1'', video_url_to_save = ''https://u'',
                    interview_id = PStr ''rec-i'', thread_id = PStr ''rec-i'',
                    sequence_counter = 0\<rparr>"


definition demo_items :: "conversation_item list" where
  "demo_items =
     [\<lparr>text_content = Some ''Hello Sam'', role = ''assistant''\<rparr>,
      \<lparr>text_content = Some ''   '', role = ''user''\<rparr>,
      \<lparr>text_content = None, role = ''user''\<rparr>,
      \<lparr>text_content = Some '' Hi there '', role = ''user''\<rparr>]"

text \<open>
  The fields of the state that a turn has to carry forward: all declared keys but
  \<^verbatim>\<open>messages\<close> and \<^verbatim>\<open>last_updated\<close>.
\<close>

definition scalar_keys :: "string list" where
  "scalar_keys =
     [''session_id'', ''participant_name'', ''interview_status'', ''start_time'',
      ''current_question'', ''questions_asked'', ''responses_received'',
      ''application_details'', ''interview_language'']"

text \<open>
  The first turn of a session: the initial state is committed to the empty checkpoint of
  the thread (\<^verbatim>\<open>aupdate_state\<close>, agent.py line 124), and one generation turn with no further
  input follows. \<open>message_count\<close> is the length of the stored message list.
\<close>

definition first_turn :: "env \<Rightarrow> nat \<Rightarrow> session_metadata \<Rightarrow> error + assistant_state" where
  "first_turn e now md =
     ebind (create_initial_session_state now md) (\<lambda>init.
     ebind (commit Map.empty init) (\<lambda>st0. generation_turn e st0 []))"

text \<open>
  The initial state of the scenario of the specification: turn index 0 and status active,
  which are the keys \<^verbatim>\<open>current_question\<close> and \<^verbatim>\<open>interview_status\<close> of the state, and the
  first turn on a thread that was initialised with a given state.
\<close>

definition scenario_initial_state :: "(string \<times> pyval) list" where
  "scenario_initial_state = [(''current_question'', PInt 0), (''interview_status'', PStr ''active'')]"

definition first_turn_from :: "env \<Rightarrow> (string \<times> pyval) list \<Rightarrow> error + assistant_state" where
  "first_turn_from e init =
     ebind (commit Map.empty init) (\<lambda>st0. generation_turn e st0 [])"

definition message_count :: "error + assistant_state \<Rightarrow> nat option" where
  "message_count r =
     (case r of
        Inr st \<Rightarrow> (case st ''messages'' of Some (PList ms) \<Rightarrow> Some (length ms) | _ \<Rightarrow> None)
      | Inl err \<Rightarrow> None)"

text \<open>
  A model that always answers, a session without application details, and application
  details as the backend returns them for a job whose interview language is not set: the
  GraphQL answer has the key, with the value \<^verbatim>\<open>null\<close>.
\<close>

definition demo_env :: env where
  "demo_env = \<lparr>str_of = (\<lambda>v. ''?''), arabic_prompt = (\<lambda>company. company),
                llm_invoke = (\<lambda>msgs. Inr (PMessage ''ai'' ''Hello Sam'')),
                datetime_now = 2\<rparr>"

definition demo_metadata :: session_metadata where
  "demo_metadata = \<lparr>md_session_id = PStr ''rec-i'', md_participant_name = PStr ''Sam'',
                     md_start_time = PTime 1, md_application_details = PNone\<rparr>"

definition null_language_details :: pyval where
  "null_language_details =
     PDict [(''applicantName'', PStr ''Sam''),
            (''job'', PDict [(''title'', PStr ''Engineer''),
                             (''interviewPrompt'', PNone),
                             (''interviewLanguage'', PNone),
                             (''company'', PDict [(''name'', PStr ''Acme'')])])]"

section \<open>Room names and application ids\<close>

lemma split_on_nonempty: "split_on c s \<noteq> []"
  by (induction s) (auto simp: Let_def)

lemma split_on_no_sep: "c \<notin> set g \<Longrightarrow> split_on c g = [g]"
  by (induction g) (auto simp: Let_def)

lemma split_on_append_sep:
  "c \<notin> set g \<Longrightarrow> split_on c (g @ c # rest) = g # split_on c rest"
  by (induction g) (auto simp: Let_def)

lemma length_split_on: "length (split_on c s) = Suc (count_list s c)"
proof (induction s)
  case Nil
  show ?case by simp
next
  case (Cons x xs)
  have "split_on c xs \<noteq> []" by (rule split_on_nonempty)
  then have "length (tl (split_on c xs)) = count_list xs c"
    using Cons by (cases "split_on c xs") auto
  with Cons show ?case by (auto simp: Let_def)
qed

lemma is_hex_not_hyphen: "is_hex c \<Longrightarrow> c \<noteq> CHR ''-''"
  unfolding is_hex_def by auto

lemma uuid_group_no_hyphen: "uuid_group n g \<Longrightarrow> CHR ''-'' \<notin> set g"
  using is_hex_not_hyphen by (auto simp: uuid_group_def list_all_iff)

lemma split_on_five_groups:
  assumes "c \<notin> set g1" "c \<notin> set g2" "c \<notin> set g3" "c \<notin> set g4" "c \<notin> set g5"
  shows "split_on c (g1 @ c # g2 @ c # g3 @ c # g4 @ c # g5 @ c # suffix)
         = g1 # g2 # g3 # g4 # g5 # split_on c suffix"
  using assms by (simp add: split_on_append_sep)

lemma startswith_append: "startswith (p @ s) p"
  by (simp add: startswith_def)

lemma uuid_room_parts:
  assumes "uuid_group 8 g1" "uuid_group 4 g2" "uuid_group 4 g3" "uuid_group 4 g4"
    "uuid_group 12 g5"
  shows "split_on CHR ''-''
           (drop 10 (''interview-'' @ g1 @ ''-'' @ g2 @ ''-'' @ g3 @ ''-'' @ g4 @ ''-'' @ g5
                     @ ''-'' @ suffix))
         = g1 # g2 # g3 # g4 # g5 # split_on CHR ''-'' suffix"
  using assms split_on_five_groups [of "CHR ''-''" g1 g2 g3 g4 g5 suffix]
  by (simp add: uuid_group_no_hyphen)

lemma matches_convention_uuid_room:
  assumes "uuid_group 8 g1" "uuid_group 4 g2" "uuid_group 4 g3" "uuid_group 4 g4"
    "uuid_group 12 g5"
  shows "matches_convention
           (''interview-'' @ g1 @ ''-'' @ g2 @ ''-'' @ g3 @ ''-'' @ g4 @ ''-'' @ g5
            @ ''-'' @ suffix)"
proof -
  obtain p ps where "split_on CHR ''-'' suffix = p # ps"
    using split_on_nonempty [of "CHR ''-''" suffix] by (cases "split_on CHR ''-'' suffix") auto
  then show ?thesis
    unfolding matches_convention_def
    using assms uuid_room_parts [OF assms, of suffix] startswith_append [of "''interview-''"]
    by simp
qed

text \<open>
  Claim C4, as the code has it. For every room name \<^verbatim>\<open>interview-{uuid}-{suffix}\<close>, where the
  UUID is five groups of 8, 4, 4, 4 and 12 hexadecimal digits, the resolver of
  \<^verbatim>\<open>entrypoint\<close> yields exactly the five groups joined by hyphens, for any suffix. It yields
  \<^verbatim>\<open>None\<close>, without raising, exactly when the name does not start with \<^verbatim>\<open>interview-\<close> or
  has fewer than four hyphens after that prefix (fewer than five parts). In particular
  \<^verbatim>\<open>interview-11111111-2222-3333-4444-555555555555-7\<close> resolves to
  \<^verbatim>\<open>11111111-2222-3333-4444-555555555555\<close> and \<^verbatim>\<open>not-an-interview-room\<close> to \<^verbatim>\<open>None\<close>.
\<close>

theorem resolve_application_id:
  assumes "uuid_group 8 g1" "uuid_group 4 g2" "uuid_group 4 g3" "uuid_group 4 g4"
    "uuid_group 12 g5"
  shows "entrypoint_application_id
           (''interview-'' @ g1 @ ''-'' @ g2 @ ''-'' @ g3 @ ''-'' @ g4 @ ''-'' @ g5
            @ ''-'' @ suffix)
         = Some (g1 @ ''-'' @ g2 @ ''-'' @ g3 @ ''-'' @ g4 @ ''-'' @ g5)
       \<and> (entrypoint_application_id room = None
            \<longleftrightarrow> \<not> startswith room ''interview-'' \<or> count_list (drop 10 room) CHR ''-'' < 4)
       \<and> entrypoint_application_id ''interview-11111111-2222-3333-4444-555555555555-7''
           = Some ''11111111-2222-3333-4444-555555555555''
       \<and> entrypoint_application_id ''not-an-interview-room'' = None"
proof (intro conjI)
  have sw: "startswith (''interview-'' @ g1 @ ''-'' @ g2 @ ''-'' @ g3 @ ''-'' @ g4 @ ''-'' @ g5
            @ ''-'' @ suffix) ''interview-''"
    by (rule startswith_append)
  show "entrypoint_application_id
           (''interview-'' @ g1 @ ''-'' @ g2 @ ''-'' @ g3 @ ''-'' @ g4 @ ''-'' @ g5
            @ ''-'' @ suffix)
         = Some (g1 @ ''-'' @ g2 @ ''-'' @ g3 @ ''-'' @ g4 @ ''-'' @ g5)"
    unfolding entrypoint_application_id_def using sw uuid_room_parts [OF assms, of suffix]
    by (simp add: Let_def)
  show "entrypoint_application_id room = None
            \<longleftrightarrow> \<not> startswith room ''interview-'' \<or> count_list (drop 10 room) CHR ''-'' < 4"
    by (auto simp: entrypoint_application_id_def Let_def length_split_on)
  show "entrypoint_application_id ''interview-11111111-2222-3333-4444-555555555555-7''
           = Some ''11111111-2222-3333-4444-555555555555''"
    by (simp add: entrypoint_application_id_def startswith_def Let_def)
  show "entrypoint_application_id ''not-an-interview-room'' = None"
    by (simp add: entrypoint_application_id_def startswith_def)
qed

text \<open>The theorem at the room name of the docstring example, and at a name with too few parts.\<close>

theorem resolve_application_id_witness:
  "uuid_group 8 ''471434a7'' \<and> uuid_group 4 ''2297'' \<and> uuid_group 4 ''4b89''
   \<and> uuid_group 4 ''9074'' \<and> uuid_group 12 ''3bdd0f99bcd1''
   \<and> entrypoint_application_id ''interview-471434a7-2297-4b89-9074-3bdd0f99bcd1-97''
       = Some ''471434a7-2297-4b89-9074-3bdd0f99bcd1''
   \<and> (entrypoint_application_id ''interview-1-2-3'' = None)"
proof -
  have h1: "uuid_group 8 ''471434a7''" by (simp add: uuid_group_def is_hex_def)
  have h2: "uuid_group 4 ''2297''" by (simp add: uuid_group_def is_hex_def)
  have h3: "uuid_group 4 ''4b89''" by (simp add: uuid_group_def is_hex_def)
  have h4: "uuid_group 4 ''9074''" by (simp add: uuid_group_def is_hex_def)
  have h5: "uuid_group 12 ''3bdd0f99bcd1''" by (simp add: uuid_group_def is_hex_def)
  show ?thesis
    using h1 h2 h3 h4 h5
      resolve_application_id
        [OF h1 h2 h3 h4 h5, where suffix = "''97''" and room = "''interview-1-2-3''"]
    by (simp add: startswith_def)
qed

text \<open>
  The claim as stated says \<^verbatim>\<open>None\<close> for every name outside the convention. The
  resolver does not look at the shape of the groups: \<^verbatim>\<open>interview-a-b-c-d-e\<close> is not of the
  form \<^verbatim>\<open>interview-{uuid}-{suffix}\<close>, and resolves to \<^verbatim>\<open>a-b-c-d-e\<close>.
\<close>

theorem resolve_non_matching_counterexample:
  "\<not> matches_convention ''interview-a-b-c-d-e''
   \<and> entrypoint_application_id ''interview-a-b-c-d-e'' = Some ''a-b-c-d-e''"
  by (simp add: matches_convention_def entrypoint_application_id_def startswith_def Let_def
      uuid_group_def)

section \<open>Registration of the recording\<close>




lemma fresh_id_inj: "fresh_id m = fresh_id n \<longleftrightarrow> m = n"
proof
  assume "fresh_id m = fresh_id n"
  then have "length (fresh_id m) = length (fresh_id n)" by simp
  then show "m = n" by (simp add: fresh_id_def)
qed simp


















section \<open>The transcript sequencer\<close>

lemma strip_Nil: "strip [] = []"
  by (simp add: strip_def)

lemma async_handler_unlinked:
  "\<not> truthy (interview_id s) \<Longrightarrow> async_handler post now s item b = (s, None, b)"
  by (simp add: async_handler_def split: option.splits)

lemma async_handler_no_text:
  "finalized_text item = None \<Longrightarrow> async_handler post now s item b = (s, None, b)"
  by (auto simp: async_handler_def finalized_text_def strip_Nil split: option.splits if_splits)

lemma async_handler_linked:
  assumes "truthy (interview_id s)" "finalized_text item = Some c"
  shows "async_handler post now s item b =
           (s\<lparr>sequence_counter := sequence_counter s + 1\<rparr>,
            Some \<lparr>call_interview_id = interview_id s, call_content = c,
                  call_speaker = (if role item = ''assistant'' then ''AI'' else ''CANDIDATE''),
                  call_sequence_number = sequence_counter s + 1\<rparr>,
            snd (save_transcript_entry post now (interview_id s) c
                   (if role item = ''assistant'' then ''AI'' else ''CANDIDATE'')
                   (sequence_counter s + 1) b))"
  using assms
  by (auto simp: async_handler_def finalized_text_def strip_Nil Let_def
      split: option.splits if_splits prod.splits)

lemma async_handler_cases:
  assumes "async_handler post now s item b = (s1, call, b1)"
  shows "(call = None \<and> s1 = s \<and> b1 = b)
       \<or> (\<exists>c. call = Some c \<and> truthy (interview_id s)
             \<and> finalized_text item = Some (call_content c)
             \<and> call_sequence_number c = sequence_counter s + 1
             \<and> call_interview_id c = interview_id s
             \<and> s1 = s\<lparr>sequence_counter := sequence_counter s + 1\<rparr>)"
proof (cases "truthy (interview_id s)")
  case False
  with assms show ?thesis by (simp add: async_handler_unlinked)
next
  case True
  show ?thesis
  proof (cases "finalized_text item")
    case None
    with assms show ?thesis by (simp add: async_handler_no_text)
  next
    case (Some c)
    from async_handler_linked [OF True Some, of post now b] assms
    show ?thesis using True Some by auto
  qed
qed

lemma handle_all_counter:
  "handle_all post now s items b = (s', calls, b')
   \<Longrightarrow> sequence_counter s' = sequence_counter s + int (length calls)
       \<and> interview_id s' = interview_id s"
proof (induction items arbitrary: s b s' calls b')
  case Nil
  then show ?case by simp
next
  case (Cons item items)
  obtain s1 call b1 where h: "async_handler post now s item b = (s1, call, b1)"
    by (cases "async_handler post now s item b") auto
  obtain s2 calls2 b2 where r: "handle_all post now s1 items b1 = (s2, calls2, b2)"
    by (cases "handle_all post now s1 items b1") auto
  from Cons.prems h r have eq: "s' = s2" "b' = b2"
    "calls = (case call of None \<Rightarrow> calls2 | Some c \<Rightarrow> c # calls2)" by auto
  from Cons.IH [OF r] have ih: "sequence_counter s2 = sequence_counter s1 + int (length calls2)"
    "interview_id s2 = interview_id s1" by auto
  from async_handler_cases [OF h] show ?case
    using eq ih by auto
qed

lemma handle_all_bounds:
  "handle_all post now s items b = (s', calls, b')
   \<Longrightarrow> sorted_wrt (<) (map call_sequence_number calls)
       \<and> (\<forall>c \<in> set calls. sequence_counter s < call_sequence_number c)"
proof (induction items arbitrary: s b s' calls b')
  case Nil
  then show ?case by simp
next
  case (Cons item items)
  obtain s1 call b1 where h: "async_handler post now s item b = (s1, call, b1)"
    by (cases "async_handler post now s item b") auto
  obtain s2 calls2 b2 where r: "handle_all post now s1 items b1 = (s2, calls2, b2)"
    by (cases "handle_all post now s1 items b1") auto
  from Cons.prems h r have eq:
    "calls = (case call of None \<Rightarrow> calls2 | Some c \<Rightarrow> c # calls2)" by auto
  from Cons.IH [OF r] have ih: "sorted_wrt (<) (map call_sequence_number calls2)"
    "\<forall>c \<in> set calls2. sequence_counter s1 < call_sequence_number c" by auto
  from async_handler_cases [OF h] show ?case
  proof
    assume "call = None \<and> s1 = s \<and> b1 = b"
    with eq ih show ?thesis by simp
  next
    assume "\<exists>c. call = Some c \<and> truthy (interview_id s)
             \<and> finalized_text item = Some (call_content c)
             \<and> call_sequence_number c = sequence_counter s + 1
             \<and> call_interview_id c = interview_id s
             \<and> s1 = s\<lparr>sequence_counter := sequence_counter s + 1\<rparr>"
    then obtain c where c: "call = Some c" "call_sequence_number c = sequence_counter s + 1"
      "s1 = s\<lparr>sequence_counter := sequence_counter s + 1\<rparr>" by auto
    from c(3) have "sequence_counter s1 = sequence_counter s + 1" by simp
    with ih(2) have "\<forall>d \<in> set calls2. sequence_counter s + 1 < call_sequence_number d" by simp
    with eq c ih(1) show ?thesis by auto
  qed
qed

lemma handle_all_nth:
  "handle_all post now s items b = (s', calls, b')
   \<Longrightarrow> i < length calls
   \<Longrightarrow> call_sequence_number (calls ! i) = sequence_counter s + 1 + int i"
proof (induction items arbitrary: s b s' calls b' i)
  case Nil
  then show ?case by simp
next
  case (Cons item items)
  obtain s1 call b1 where h: "async_handler post now s item b = (s1, call, b1)"
    by (cases "async_handler post now s item b") auto
  obtain s2 calls2 b2 where r: "handle_all post now s1 items b1 = (s2, calls2, b2)"
    by (cases "handle_all post now s1 items b1") auto
  from Cons.prems(1) h r have eq:
    "calls = (case call of None \<Rightarrow> calls2 | Some c \<Rightarrow> c # calls2)" by auto
  from async_handler_cases [OF h] show ?case
  proof
    assume "call = None \<and> s1 = s \<and> b1 = b"
    with eq r Cons.IH [of s b s2 calls2 b2 i] Cons.prems(2) show ?thesis by simp
  next
    assume "\<exists>c. call = Some c \<and> truthy (interview_id s)
             \<and> finalized_text item = Some (call_content c)
             \<and> call_sequence_number c = sequence_counter s + 1
             \<and> call_interview_id c = interview_id s
             \<and> s1 = s\<lparr>sequence_counter := sequence_counter s + 1\<rparr>"
    then obtain c where c: "call = Some c" "call_sequence_number c = sequence_counter s + 1"
      "s1 = s\<lparr>sequence_counter := sequence_counter s + 1\<rparr>" by auto
    from c(3) have s1: "sequence_counter s1 = sequence_counter s + 1" by simp
    show ?thesis
    proof (cases i)
      case 0
      with eq c show ?thesis by simp
    next
      case (Suc j)
      with Cons.prems(2) eq c have "j < length calls2" by simp
      from Cons.IH [OF r this] s1 Suc eq c show ?thesis by simp
    qed
  qed
qed

lemma handle_all_contents:
  "handle_all post now s items b = (s', calls, b')
   \<Longrightarrow> truthy (interview_id s)
   \<Longrightarrow> map call_content calls = List.map_filter finalized_text items
       \<and> (\<forall>c \<in> set calls. call_interview_id c = interview_id s)"
proof (induction items arbitrary: s b s' calls b')
  case Nil
  then show ?case by simp
next
  case (Cons item items)
  obtain s1 call b1 where h: "async_handler post now s item b = (s1, call, b1)"
    by (cases "async_handler post now s item b") auto
  obtain s2 calls2 b2 where r: "handle_all post now s1 items b1 = (s2, calls2, b2)"
    by (cases "handle_all post now s1 items b1") auto
  from Cons.prems(1) h r have eq:
    "calls = (case call of None \<Rightarrow> calls2 | Some c \<Rightarrow> c # calls2)" by auto
  show ?case
  proof (cases "finalized_text item")
    case None
    with h have "s1 = s" "call = None" by (simp_all add: async_handler_no_text)
    with Cons.IH [OF r] Cons.prems(2) eq None show ?thesis
      by simp
  next
    case (Some c)
    from async_handler_linked [OF Cons.prems(2) Some, of post now b] h
    have k: "s1 = s\<lparr>sequence_counter := sequence_counter s + 1\<rparr>"
      "\<exists>d. call = Some d \<and> call_content d = c \<and> call_interview_id d = interview_id s"
      by auto
    from k(1) Cons.prems(2) have "truthy (interview_id s1)" "interview_id s1 = interview_id s"
      by simp_all
    with Cons.IH [OF r] k eq Some show ?thesis
      by auto
  qed
qed


lemma demo_run:
  "handle_all unreachable_backend ''t'' demo_session demo_items () =
     (demo_session\<lparr>sequence_counter := 2\<rparr>,
      [\<lparr>call_interview_id = PStr ''rec-i'', call_content = ''Hello Sam'',
        call_speaker = ''AI'', call_sequence_number = 1\<rparr>,
       \<lparr>call_interview_id = PStr ''rec-i'', call_content = ''Hi there'',
        call_speaker = ''CANDIDATE'', call_sequence_number = 2\<rparr>],
      ())"
  by (simp add: demo_session_def demo_items_def async_handler_def strip_def is_space_def
      save_transcript_entry_def create_transcript_def execute_query_def
      unreachable_backend_def Let_def)


text \<open>
  Claim C5. Notifications for one session are handled by tasks of one cooperative event
  loop; each task increments the counter and evaluates the arguments of the append before
  its first suspension. For any series of notifications, any backend (also one whose every
  append fails) and any starting counter: the sequence numbers handed to the appends are
  strictly increasing, hence without duplicates; the \<open>i\<close>-th of them is the starting counter
  plus \<open>i + 1\<close>; the counter ends at the starting counter plus the number of appends
  attempted, so it is never rolled back; and with a linked record every finalized,
  non-empty notification is counted.
\<close>

theorem sequence_numbers_strictly_increasing:
  assumes "handle_all post now s items b = (s', calls, b')"
  shows "sorted_wrt (<) (map call_sequence_number calls)
       \<and> distinct (map call_sequence_number calls)
       \<and> (\<forall>i < length calls. call_sequence_number (calls ! i) = sequence_counter s + 1 + int i)
       \<and> sequence_counter s' = sequence_counter s + int (length calls)
       \<and> (truthy (interview_id s) \<longrightarrow>
            length calls = length (List.map_filter finalized_text items))"
proof -
  have sorted: "sorted_wrt (<) (map call_sequence_number calls)"
    using handle_all_bounds [OF assms] by simp
  then have "distinct (map call_sequence_number calls)"
    by (simp add: strict_sorted_iff)
  moreover have "\<forall>i < length calls.
      call_sequence_number (calls ! i) = sequence_counter s + 1 + int i"
    using handle_all_nth [OF assms] by simp
  moreover have "sequence_counter s' = sequence_counter s + int (length calls)"
    using handle_all_counter [OF assms] by simp
  moreover have "truthy (interview_id s) \<longrightarrow>
      length calls = length (List.map_filter finalized_text items)"
  proof
    assume "truthy (interview_id s)"
    from handle_all_contents [OF assms this]
    have "map call_content calls = List.map_filter finalized_text items" by simp
    then have "length (map call_content calls) = length (List.map_filter finalized_text items)"
      by simp
    then show "length calls = length (List.map_filter finalized_text items)" by simp
  qed
  ultimately show ?thesis using sorted by simp
qed

text \<open>The theorem on four notifications, two of them without text, all appends failing.\<close>

theorem sequence_numbers_strictly_increasing_witness:
  "map call_sequence_number
     (fst (snd (handle_all unreachable_backend ''t'' demo_session demo_items ()))) = [1, 2]
   \<and> sequence_counter (fst (handle_all unreachable_backend ''t'' demo_session demo_items ())) = 2
   \<and> distinct (map call_sequence_number
       (fst (snd (handle_all unreachable_backend ''t'' demo_session demo_items ()))))"
  using sequence_numbers_strictly_increasing [OF demo_run] demo_run
  by (simp add: demo_session_def)







section \<open>Recording setup and linkage\<close>

lemma recording_s3_url_nonempty: "recording_s3_url bucket_name region sid timestamp \<noteq> []"
  by (simp add: recording_s3_url_def)

lemma entrypoint_video_url_nonempty:
  "entrypoint_video_url bucket_name region sid timestamp cap \<noteq> []"
  by (auto simp: entrypoint_video_url_def Let_def recording_s3_url_nonempty
      split: capture.splits option.splits)











text \<open>
  Claim C8. Whatever the capture attempt does (it returns a URL, returns \<^verbatim>\<open>None\<close> after
  a failure, or \<^verbatim>\<open>wait_for\<close> raises on the timeout), the URL to register is not empty.
  The fallback is a function of bucket, region, session id and timestamp alone; it is used
  when the capture raised, returned \<^verbatim>\<open>None\<close> or returned an empty string, and the URL of
  the capture is used when there is one. A failing egress request makes
  \<^verbatim>\<open>start_recording\<close> return \<^verbatim>\<open>None\<close>, a successful one the S3 address of the recording.
  In every case the session is set up with that URL.
\<close>

theorem recording_url_always_available:
  "entrypoint_video_url bucket_name region sid timestamp cap \<noteq> []
   \<and> entrypoint_video_url bucket_name region sid timestamp (Raised e)
       = recording_s3_url bucket_name region sid timestamp
   \<and> entrypoint_video_url bucket_name region sid timestamp (Returned None)
       = recording_s3_url bucket_name region sid timestamp
   \<and> entrypoint_video_url bucket_name region sid timestamp (Returned (Some []))
       = recording_s3_url bucket_name region sid timestamp
   \<and> (u \<noteq> [] \<longrightarrow> entrypoint_video_url bucket_name region sid timestamp (Returned (Some u)) = u)
   \<and> start_recording bucket_name region context_room job room sid timestamp' (Inl e) = None
   \<and> (room \<noteq> [] \<and> sid \<noteq> [] \<longrightarrow>
        start_recording bucket_name region context_room job room sid timestamp' (Inr egress_id)
          = Some (recording_s3_url bucket_name region sid timestamp'))
   \<and> video_url_to_save
        (fst (entrypoint_link post bucket_name region room job sid timestamp cap b))
       = entrypoint_video_url bucket_name region sid timestamp cap"
proof (intro conjI impI)
  show "entrypoint_video_url bucket_name region sid timestamp cap \<noteq> []"
    by (rule entrypoint_video_url_nonempty)
  show "video_url_to_save
        (fst (entrypoint_link post bucket_name region room job sid timestamp cap b))
       = entrypoint_video_url bucket_name region sid timestamp cap"
    by (simp add: entrypoint_link_def Let_def split: prod.splits)
qed (simp_all add: entrypoint_video_url_def start_recording_def Let_def)

text \<open>The theorem at a capture that timed out and at one that returned a URL.\<close>

theorem recording_url_always_available_witness:
  "entrypoint_video_url ''4wk-garage-media'' ''me-central-1'' ''s1'' ''20251104_120000''
      (Raised TimeoutError)
     = ''https://4wk-garage-media.s3.me-central-1.amazonaws.com/interviews/s1/20251104_120000/recording.mp4''
   \<and> entrypoint_video_url ''4wk-garage-media'' ''me-central-1'' ''s1'' ''20251104_120000''
      (Returned (Some ''https://capture/recording.mp4'')) = ''https://capture/recording.mp4''
   \<and> start_recording ''4wk-garage-media'' ''me-central-1'' ''room'' ''job'' ''room'' ''s1''
        ''20251104_120001'' (Inr ''EG_1'')
     = Some ''https://4wk-garage-media.s3.me-central-1.amazonaws.com/interviews/s1/20251104_120001/recording.mp4''"
proof -
  have u: "''https://capture/recording.mp4'' \<noteq> []" by simp
  have r: "''room'' \<noteq> [] \<and> ''s1'' \<noteq> []" by simp
  from recording_url_always_available
    [where bucket_name = "''4wk-garage-media''" and region = "''me-central-1''"
      and sid = "''s1''" and timestamp = "''20251104_120000''"
      and cap = "Raised TimeoutError" and e = TimeoutError
      and u = "''https://capture/recording.mp4''" and context_room = "''room''"
      and job = "''job''" and room = "''room''" and timestamp' = "''20251104_120001''"
      and egress_id = "''EG_1''" and post = unreachable_backend and b = "()"]
    u r
  show ?thesis by (simp add: recording_s3_url_def)
qed

section \<open>The checkpointed conversation state\<close>

lemma ebind_Inr: "ebind m f = Inr y \<longleftrightarrow> (\<exists>x. m = Inr x \<and> f x = Inr y)"
  by (cases m) (simp_all add: ebind_def)

lemma ebind_simps: "ebind (Inr x) f = f x" "ebind (Inl err) f = Inl err"
  by (simp_all add: ebind_def)

lemma stored_messages_present: "st ''messages'' = Some v \<Longrightarrow> stored_messages st = v"
  by (simp add: stored_messages_def)

lemma commit_append:
  assumes "stored_messages st = PList ms" "map_of upd ''messages'' = Some (PList new)"
  shows "commit st upd =
           Inr (\<lambda>k. if k = ''messages'' then Some (PList (ms @ new))
                     else if k \<in> set state_keys
                     then (case map_of upd k of Some v \<Rightarrow> Some v | None \<Rightarrow> st k)
                     else st k)"
  using assms by (simp add: commit_def py_add_def ebind_simps)

lemma commit_input:
  assumes "stored_messages st = PList ms"
  shows "commit st [(''messages'', PList input)] =
           Inr (st(''messages'' \<mapsto> PList (ms @ input)))"
proof -
  have "commit st [(''messages'', PList input)] =
           Inr (\<lambda>k. if k = ''messages'' then Some (PList (ms @ input))
                     else if k \<in> set state_keys
                     then (case map_of [(''messages'', PList input)] k of
                             Some v \<Rightarrow> Some v | None \<Rightarrow> st k)
                     else st k)"
    using commit_append [of st ms "[(''messages'', PList input)]" input] assms by simp
  moreover have "(\<lambda>k. if k = ''messages'' then Some (PList (ms @ input))
                     else if k \<in> set state_keys
                     then (case map_of [(''messages'', PList input)] k of
                             Some v \<Rightarrow> Some v | None \<Rightarrow> st k)
                     else st k) = st(''messages'' \<mapsto> PList (ms @ input))"
    by (rule ext) simp
  ultimately show ?thesis by simp
qed

lemma call_llm_update:
  assumes "call_llm e st = Inr upd"
  shows "\<exists>message.
     upd = [(''messages'', PList [message]),
            (''last_updated'', PTime (datetime_now e)),
            (''current_question'', state_get st ''current_question'' (PInt 0)),
            (''session_id'', state_get st ''session_id'' (PStr ''unknown'')),
            (''participant_name'', state_get st ''participant_name'' PNone),
            (''interview_status'', state_get st ''interview_status'' (PStr ''active'')),
            (''start_time'', state_get st ''start_time'' PNone),
            (''questions_asked'', state_get st ''questions_asked'' (PList [])),
            (''responses_received'', state_get st ''responses_received'' (PList [])),
            (''application_details'', state_get st ''application_details'' PNone),
            (''interview_language'', state_get st ''interview_language'' (PStr ''english''))]"
  using assms unfolding call_llm_def Let_def ebind_Inr by auto

lemma scalar_keys_declared: "k \<in> set scalar_keys \<Longrightarrow> k \<in> set state_keys \<and> k \<noteq> ''messages''"
proof -
  have "list_all (\<lambda>k. k \<in> set state_keys \<and> k \<noteq> ''messages'') scalar_keys"
    by (simp add: scalar_keys_def state_keys_def)
  then show "k \<in> set scalar_keys \<Longrightarrow> k \<in> set state_keys \<and> k \<noteq> ''messages''"
    by (simp add: list_all_iff)
qed

lemma node_update_lookup:
  assumes "k \<in> set scalar_keys" "st k = Some v"
  shows "map_of
           [(''messages'', PList [message]),
            (''last_updated'', PTime t),
            (''current_question'', state_get st ''current_question'' (PInt 0)),
            (''session_id'', state_get st ''session_id'' (PStr ''unknown'')),
            (''participant_name'', state_get st ''participant_name'' PNone),
            (''interview_status'', state_get st ''interview_status'' (PStr ''active'')),
            (''start_time'', state_get st ''start_time'' PNone),
            (''questions_asked'', state_get st ''questions_asked'' (PList [])),
            (''responses_received'', state_get st ''responses_received'' (PList [])),
            (''application_details'', state_get st ''application_details'' PNone),
            (''interview_language'', state_get st ''interview_language'' (PStr ''english''))]
           k = Some v"
proof -
  have "list_all (\<lambda>k. \<forall>v. st k = Some v \<longrightarrow> map_of
           [(''messages'', PList [message]),
            (''last_updated'', PTime t),
            (''current_question'', state_get st ''current_question'' (PInt 0)),
            (''session_id'', state_get st ''session_id'' (PStr ''unknown'')),
            (''participant_name'', state_get st ''participant_name'' PNone),
            (''interview_status'', state_get st ''interview_status'' (PStr ''active'')),
            (''start_time'', state_get st ''start_time'' PNone),
            (''questions_asked'', state_get st ''questions_asked'' (PList [])),
            (''responses_received'', state_get st ''responses_received'' (PList [])),
            (''application_details'', state_get st ''application_details'' PNone),
            (''interview_language'', state_get st ''interview_language'' (PStr ''english''))]
           k = Some v) scalar_keys"
    by (simp add: scalar_keys_def state_get_def)
  with assms show ?thesis
    by (simp add: list_all_iff)
qed

lemma messages_declared: "''messages'' \<in> set state_keys"
  by (simp add: state_keys_def)

lemma generation_turn_effect:
  assumes m: "stored_messages st = PList ms"
    and t: "generation_turn e st input = Inr st'"
  shows "(\<exists>message. st' ''messages'' = Some (PList (ms @ input @ [message])))
       \<and> (\<forall>k \<in> set scalar_keys. \<forall>v. st k = Some v \<longrightarrow> st' k = Some v)
       \<and> (\<forall>k. k \<notin> set state_keys \<longrightarrow> st' k = st k)"
proof -
  from t obtain st1 upd where c1: "commit st [(''messages'', PList input)] = Inr st1"
    and n: "call_llm e st1 = Inr upd" and c2: "commit st1 upd = Inr st'"
    unfolding generation_turn_def ebind_Inr by auto
  from c1 m commit_input [of st ms input]
  have st1: "st1 = st(''messages'' \<mapsto> PList (ms @ input))" by simp
  then have m1: "st1 ''messages'' = Some (PList (ms @ input))" by simp
  from call_llm_update [OF n] obtain message where upd:
    "upd = [(''messages'', PList [message]),
            (''last_updated'', PTime (datetime_now e)),
            (''current_question'', state_get st1 ''current_question'' (PInt 0)),
            (''session_id'', state_get st1 ''session_id'' (PStr ''unknown'')),
            (''participant_name'', state_get st1 ''participant_name'' PNone),
            (''interview_status'', state_get st1 ''interview_status'' (PStr ''active'')),
            (''start_time'', state_get st1 ''start_time'' PNone),
            (''questions_asked'', state_get st1 ''questions_asked'' (PList [])),
            (''responses_received'', state_get st1 ''responses_received'' (PList [])),
            (''application_details'', state_get st1 ''application_details'' PNone),
            (''interview_language'', state_get st1 ''interview_language'' (PStr ''english''))]"
    by blast
  then have um: "map_of upd ''messages'' = Some (PList [message])" by simp
  from commit_append [of st1 "ms @ input" upd "[message]"]
    stored_messages_present [of st1 "PList (ms @ input)"] m1 um c2
  have st': "st' = (\<lambda>k. if k = ''messages'' then Some (PList ((ms @ input) @ [message]))
                     else if k \<in> set state_keys
                     then (case map_of upd k of Some v \<Rightarrow> Some v | None \<Rightarrow> st1 k)
                     else st1 k)" by simp
  have a: "\<exists>message. st' ''messages'' = Some (PList (ms @ input @ [message]))"
    using st' by simp
  have b: "\<forall>k \<in> set scalar_keys. \<forall>v. st k = Some v \<longrightarrow> st' k = Some v"
  proof (intro ballI allI impI)
    fix k v assume k: "k \<in> set scalar_keys" and v: "st k = Some v"
    from scalar_keys_declared [OF k] have d: "k \<in> set state_keys" "k \<noteq> ''messages''" by simp_all
    from d(2) v st1 have "st1 k = Some v" by simp
    from node_update_lookup [of k st1 v message "datetime_now e"] k this upd
    have "map_of upd k = Some v" by simp
    with st' d show "st' k = Some v" by simp
  qed
  have c: "\<forall>k. k \<notin> set state_keys \<longrightarrow> st' k = st k"
  proof (intro allI impI)
    fix k assume k: "k \<notin> set state_keys"
    with messages_declared have "k \<noteq> ''messages''" by metis
    with k st' st1 show "st' k = st k" by simp
  qed
  from a b c show ?thesis by blast
qed

lemma run_turns_effect:
  "stored_messages st = PList ms \<Longrightarrow> run_turns e st inputs = Inr st'
   \<Longrightarrow> (\<exists>ms'. stored_messages st' = PList (ms @ ms')
              \<and> length ms' = length (concat inputs) + length inputs)
       \<and> (\<forall>k \<in> set scalar_keys. \<forall>v. st k = Some v \<longrightarrow> st' k = Some v)"
proof (induction inputs arbitrary: st ms)
  case Nil
  then show ?case by simp
next
  case (Cons input inputs)
  from Cons.prems(2) obtain st1 where t: "generation_turn e st input = Inr st1"
    and r: "run_turns e st1 inputs = Inr st'"
    by (auto simp: ebind_Inr)
  from generation_turn_effect [of st ms e input st1] Cons.prems(1) t obtain message where
    m1: "st1 ''messages'' = Some (PList (ms @ input @ [message]))"
    and p1: "\<forall>k \<in> set scalar_keys. \<forall>v. st k = Some v \<longrightarrow> st1 k = Some v" by blast
  from Cons.IH [of st1 "ms @ input @ [message]"]
    stored_messages_present [of st1 "PList (ms @ input @ [message])"] m1 r
  obtain ms' where
    m2: "stored_messages st' = PList ((ms @ input @ [message]) @ ms')"
    and l2: "length ms' = length (concat inputs) + length inputs"
    and p2: "\<forall>k \<in> set scalar_keys. \<forall>v. st1 k = Some v \<longrightarrow> st' k = Some v" by blast
  have "stored_messages st' = PList (ms @ (input @ [message] @ ms'))"
    using m2 by simp
  moreover have "length (input @ [message] @ ms') = length (concat (input # inputs)) + length (input # inputs)"
    using l2 by simp
  moreover have "\<forall>k \<in> set scalar_keys. \<forall>v. st k = Some v \<longrightarrow> st' k = Some v"
    using p1 p2 by blast
  ultimately show ?case by blast
qed

lemma create_initial_update:
  assumes "create_initial_session_state now md = Inr init"
  shows "\<exists>language cv_score cv_analysis_results.
     init = [(''messages'', PList [PMessage ''human'' ''Start conversation'']),
             (''session_id'', md_session_id md),
             (''current_question'', PInt 0),
             (''interview_status'', PStr ''active''),
             (''participant_name'', md_participant_name md),
             (''start_time'', md_start_time md),
             (''last_updated'', PTime now),
             (''questions_asked'', PList []),
             (''responses_received'', PList []),
             (''application_details'', md_application_details md),
             (''interview_language'', PStr language),
             (''cv_score'', cv_score),
             (''cv_analysis_results'', cv_analysis_results)]"
  using assms unfolding create_initial_session_state_def Let_def ebind_Inr
  by (auto split: prod.splits)

lemma commit_initial:
  assumes "create_initial_session_state now md = Inr init" "commit Map.empty init = Inr st0"
  shows "st0 ''messages'' = Some (PList [PMessage ''human'' ''Start conversation''])
       \<and> st0 ''interview_status'' = Some (PStr ''active'')
       \<and> st0 ''current_question'' = Some (PInt 0)"
proof -
  from create_initial_update [OF assms(1)] obtain language cv_score cv_analysis_results where
    "init = [(''messages'', PList [PMessage ''human'' ''Start conversation'']),
             (''session_id'', md_session_id md),
             (''current_question'', PInt 0),
             (''interview_status'', PStr ''active''),
             (''participant_name'', md_participant_name md),
             (''start_time'', md_start_time md),
             (''last_updated'', PTime now),
             (''questions_asked'', PList []),
             (''responses_received'', PList []),
             (''application_details'', md_application_details md),
             (''interview_language'', PStr language),
             (''cv_score'', cv_score),
             (''cv_analysis_results'', cv_analysis_results)]" by blast
  with assms(2) have
    "st0 = (\<lambda>k. if k = ''messages'' then Some (PList [PMessage ''human'' ''Start conversation''])
                 else if k \<in> set state_keys
                 then (case map_of init k of Some v \<Rightarrow> Some v | None \<Rightarrow> Map.empty k)
                 else Map.empty k)"
    and "map_of init ''interview_status'' = Some (PStr ''active'')"
    and "map_of init ''current_question'' = Some (PInt 0)"
    by (auto simp: commit_def stored_messages_def py_add_def ebind_simps)
  then show ?thesis by (simp add: state_keys_def)
qed

lemma status_keys: "''interview_status'' \<in> set scalar_keys" "''current_question'' \<in> set scalar_keys"
  by (simp_all add: scalar_keys_def)

lemma first_turn_effect:
  assumes "create_initial_session_state now md = Inr init" "commit Map.empty init = Inr st0"
    "generation_turn e st0 [] = Inr st1"
  shows "(\<exists>message. st1 ''messages'' =
            Some (PList [PMessage ''human'' ''Start conversation'', message]))
       \<and> st1 ''interview_status'' = Some (PStr ''active'')
       \<and> st1 ''current_question'' = Some (PInt 0)"
proof -
  note i = commit_initial [OF assms(1,2)]
  from i have m: "st0 ''messages'' = Some (PList [PMessage ''human'' ''Start conversation''])"
    by simp
  from generation_turn_effect
    [of st0 "[PMessage ''human'' ''Start conversation'']" e "[]" st1]
    stored_messages_present [of st0 "PList [PMessage ''human'' ''Start conversation'']"] m
    assms(3)
  have g: "\<exists>message. st1 ''messages'' =
            Some (PList ([PMessage ''human'' ''Start conversation''] @ [] @ [message]))"
    and p: "\<forall>k \<in> set scalar_keys. \<forall>v. st0 k = Some v \<longrightarrow> st1 k = Some v" by blast+
  from p status_keys i have "st1 ''interview_status'' = Some (PStr ''active'')"
    "st1 ''current_question'' = Some (PInt 0)" by blast+
  with g show ?thesis by simp
qed

lemma generation_turn_returns:
  assumes m: "stored_messages st = PList ms"
    and p: "system_prompt_of e (state_get st ''application_details'' PNone) = Inr prompt"
    and l: "llm_invoke e (PMessage ''system'' prompt # ms @ input) = Inr message"
  shows "\<exists>st'. generation_turn e st input = Inr st'
              \<and> st' ''messages'' = Some (PList (ms @ input @ [message]))"
proof -
  let ?st1 = "st(''messages'' \<mapsto> PList (ms @ input))"
  have c1: "commit st [(''messages'', PList input)] = Inr ?st1"
    using commit_input [of st ms input] m by simp
  have "state_get ?st1 ''application_details'' PNone = state_get st ''application_details'' PNone"
    by (simp add: state_get_def)
  with p l have "\<exists>upd. call_llm e ?st1 = Inr upd \<and> map_of upd ''messages'' = Some (PList [message])"
    by (simp add: call_llm_def Let_def py_list_def ebind_simps)
  then obtain upd where n: "call_llm e ?st1 = Inr upd"
    and um: "map_of upd ''messages'' = Some (PList [message])" by blast
  have m1: "?st1 ''messages'' = Some (PList (ms @ input))" by simp
  from commit_append [of ?st1 "ms @ input" upd "[message]"]
    stored_messages_present [of ?st1 "PList (ms @ input)"] m1 um
  have "\<exists>st'. commit ?st1 upd = Inr st' \<and> st' ''messages'' = Some (PList (ms @ input @ [message]))"
    by simp
  with c1 n show ?thesis
    by (simp add: generation_turn_def ebind_simps)
qed

lemma demo_first_turn:
  "\<exists>st1. first_turn demo_env 0 demo_metadata = Inr st1
        \<and> st1 ''messages'' = Some (PList [PMessage ''human'' ''Start conversation'',
                                          PMessage ''ai'' ''Hello Sam''])"
  by (simp add: first_turn_def create_initial_session_state_def generation_turn_def
      call_llm_def system_prompt_of_def commit_def stored_messages_def py_add_def py_list_def
      state_get_def ebind_simps demo_env_def demo_metadata_def Let_def)

lemma commit_scenario_initial:
  "commit Map.empty scenario_initial_state = Inr st0
   \<Longrightarrow> stored_messages st0 = PList []
     \<and> st0 ''interview_status'' = Some (PStr ''active'')
     \<and> st0 ''current_question'' = Some (PInt 0)"
  by (auto simp: commit_def scenario_initial_state_def stored_messages_def state_keys_def
      ebind_simps)

lemma scenario_first_turn_effect:
  assumes "commit Map.empty scenario_initial_state = Inr st0" "generation_turn e st0 [] = Inr st1"
  shows "(\<exists>message. st1 ''messages'' = Some (PList [message]))
       \<and> st1 ''interview_status'' = Some (PStr ''active'')
       \<and> st1 ''current_question'' = Some (PInt 0)"
proof -
  note i = commit_scenario_initial [OF assms(1)]
  from generation_turn_effect [of st0 "[]" e "[]" st1] i assms(2)
  have g: "\<exists>message. st1 ''messages'' = Some (PList ([] @ [] @ [message]))"
    and p: "\<forall>k \<in> set scalar_keys. \<forall>v. st0 k = Some v \<longrightarrow> st1 k = Some v" by blast+
  from p status_keys i have "st1 ''interview_status'' = Some (PStr ''active'')"
    "st1 ''current_question'' = Some (PInt 0)" by blast+
  with g show ?thesis by simp
qed

lemma demo_scenario_first_turn:
  "\<exists>st1. first_turn_from demo_env scenario_initial_state = Inr st1
        \<and> st1 ''messages'' = Some (PList [PMessage ''ai'' ''Hello Sam''])"
  by (simp add: first_turn_from_def scenario_initial_state_def generation_turn_def
      call_llm_def system_prompt_of_def commit_def stored_messages_def py_add_def py_list_def
      state_get_def state_keys_def ebind_simps demo_env_def Let_def)

text \<open>
  The initial state that \<^verbatim>\<open>create_initial_session_state\<close> builds for a session is not the
  bare state of the scenario: it carries the trigger message \<^verbatim>\<open>Start conversation\<close>, so the
  first turn of a session leaves two stored messages, the trigger and the answer.
\<close>

lemma session_first_turn_message_count:
  "message_count (first_turn demo_env 0 demo_metadata) = Some 2"
  using demo_first_turn by (auto simp: message_count_def)

text \<open>
  Claim C1. A commit adds the messages of the update to the stored list and leaves every
  key that the update does not supply as it was. A generation turn appends its input
  messages and one answer; a series of turns appends exactly the messages the turns were
  given and one answer per turn, so the length of the stored list is the count of the
  messages appended so far, none lost and none twice; and each of \<^verbatim>\<open>session_id\<close>,
  \<^verbatim>\<open>participant_name\<close>, \<^verbatim>\<open>interview_status\<close>, \<^verbatim>\<open>start_time\<close>, \<^verbatim>\<open>current_question\<close>,
  \<^verbatim>\<open>questions_asked\<close>, \<^verbatim>\<open>responses_received\<close>, \<^verbatim>\<open>application_details\<close> and
  \<^verbatim>\<open>interview_language\<close> that is present before a turn has the same value after it. A turn
  does return whenever the system prompt can be built and the model answers. In particular,
  when the initial state with turn index 0 and status \<^verbatim>\<open>active\<close> is committed to a fresh
  thread, the commit succeeds with no stored message, and after one generation turn that
  appends one assistant message the stored state has one message, status \<^verbatim>\<open>active\<close> and
  turn index 0.
\<close>

theorem commit_appends_and_preserves:
  "(stored_messages st = PList ms \<and> map_of upd ''messages'' = Some (PList new) \<longrightarrow>
      (\<exists>st'. commit st upd = Inr st'
         \<and> st' ''messages'' = Some (PList (ms @ new))
         \<and> (\<forall>k. k \<noteq> ''messages'' \<and> map_of upd k = None \<longrightarrow> st' k = st k)))
   \<and> (stored_messages st = PList ms \<and> generation_turn e st input = Inr st1 \<longrightarrow>
        (\<exists>message. st1 ''messages'' = Some (PList (ms @ input @ [message])))
      \<and> (\<forall>k \<in> set scalar_keys. \<forall>v. st k = Some v \<longrightarrow> st1 k = Some v))
   \<and> (stored_messages st = PList ms \<and> run_turns e st inputs = Inr st2 \<longrightarrow>
        (\<exists>ms'. stored_messages st2 = PList (ms @ ms')
              \<and> length ms' = length (concat inputs) + length inputs)
      \<and> (\<forall>k \<in> set scalar_keys. \<forall>v. st k = Some v \<longrightarrow> st2 k = Some v))
   \<and> (stored_messages st = PList ms
       \<and> system_prompt_of e (state_get st ''application_details'' PNone) = Inr prompt
       \<and> llm_invoke e (PMessage ''system'' prompt # ms @ input) = Inr reply \<longrightarrow>
        (\<exists>st'. generation_turn e st input = Inr st'
              \<and> st' ''messages'' = Some (PList (ms @ input @ [reply]))))
   \<and> (\<exists>st0. commit Map.empty scenario_initial_state = Inr st0
            \<and> stored_messages st0 = PList []
            \<and> st0 ''interview_status'' = Some (PStr ''active'')
            \<and> st0 ''current_question'' = Some (PInt 0))
   \<and> (commit Map.empty scenario_initial_state = Inr st0
       \<and> generation_turn e st0 [] = Inr st3 \<longrightarrow>
        (\<exists>message. st3 ''messages'' = Some (PList [message])
                  \<and> message_count (Inr st3) = Some 1)
      \<and> st3 ''interview_status'' = Some (PStr ''active'')
      \<and> st3 ''current_question'' = Some (PInt 0))"
proof (intro conjI impI)
  assume "stored_messages st = PList ms \<and> map_of upd ''messages'' = Some (PList new)"
  then have "commit st upd =
       Inr (\<lambda>k. if k = ''messages'' then Some (PList (ms @ new))
                 else if k \<in> set state_keys
                 then (case map_of upd k of Some v \<Rightarrow> Some v | None \<Rightarrow> st k)
                 else st k)"
    using commit_append [of st ms upd new] by simp
  then show "\<exists>st'. commit st upd = Inr st'
         \<and> st' ''messages'' = Some (PList (ms @ new))
         \<and> (\<forall>k. k \<noteq> ''messages'' \<and> map_of upd k = None \<longrightarrow> st' k = st k)"
    by simp
next
  assume a: "stored_messages st = PList ms \<and> generation_turn e st input = Inr st1"
  from generation_turn_effect [of st ms e input st1] a
  show "\<exists>message. st1 ''messages'' = Some (PList (ms @ input @ [message]))"
    and "\<forall>k \<in> set scalar_keys. \<forall>v. st k = Some v \<longrightarrow> st1 k = Some v"
    by blast+
next
  assume a: "stored_messages st = PList ms \<and> run_turns e st inputs = Inr st2"
  from run_turns_effect [of st ms e inputs st2] a
  show "\<exists>ms'. stored_messages st2 = PList (ms @ ms')
              \<and> length ms' = length (concat inputs) + length inputs"
    and "\<forall>k \<in> set scalar_keys. \<forall>v. st k = Some v \<longrightarrow> st2 k = Some v"
    by blast+
next
  assume "stored_messages st = PList ms
       \<and> system_prompt_of e (state_get st ''application_details'' PNone) = Inr prompt
       \<and> llm_invoke e (PMessage ''system'' prompt # ms @ input) = Inr reply"
  then show "\<exists>st'. generation_turn e st input = Inr st'
              \<and> st' ''messages'' = Some (PList (ms @ input @ [reply]))"
    using generation_turn_returns [of st ms e prompt input reply] by blast
next
  have "\<exists>st0. commit Map.empty scenario_initial_state = Inr st0"
    by (simp add: commit_def scenario_initial_state_def ebind_simps)
  then show "\<exists>st0. commit Map.empty scenario_initial_state = Inr st0
            \<and> stored_messages st0 = PList []
            \<and> st0 ''interview_status'' = Some (PStr ''active'')
            \<and> st0 ''current_question'' = Some (PInt 0)"
    using commit_scenario_initial by blast
next
  assume a: "commit Map.empty scenario_initial_state = Inr st0
       \<and> generation_turn e st0 [] = Inr st3"
  from scenario_first_turn_effect [of st0 e st3] a
  have r: "\<exists>message. st3 ''messages'' = Some (PList [message])"
    "st3 ''interview_status'' = Some (PStr ''active'')"
    "st3 ''current_question'' = Some (PInt 0)"
    by blast+
  from r(1) show "\<exists>message. st3 ''messages'' = Some (PList [message])
                  \<and> message_count (Inr st3) = Some 1"
    by (auto simp: message_count_def)
  from r show "st3 ''interview_status'' = Some (PStr ''active'')"
    and "st3 ''current_question'' = Some (PInt 0)" by simp_all
qed

text \<open>
  The theorem on the first turn of the scenario, with a model that answers
  \<^verbatim>\<open>Hello Sam\<close>.
\<close>

theorem commit_appends_and_preserves_witness:
  "\<exists>st3. first_turn_from demo_env scenario_initial_state = Inr st3
         \<and> st3 ''messages'' = Some (PList [PMessage ''ai'' ''Hello Sam''])
         \<and> message_count (Inr st3) = Some 1
         \<and> st3 ''interview_status'' = Some (PStr ''active'')
         \<and> st3 ''current_question'' = Some (PInt 0)"
proof -
  from demo_scenario_first_turn obtain st3 where
    f: "first_turn_from demo_env scenario_initial_state = Inr st3"
    and m: "st3 ''messages'' = Some (PList [PMessage ''ai'' ''Hello Sam''])" by blast
  from f obtain st0 where h: "commit Map.empty scenario_initial_state = Inr st0"
    "generation_turn demo_env st0 [] = Inr st3"
    unfolding first_turn_from_def ebind_Inr by blast
  from commit_appends_and_preserves [where ?st0.0 = st0 and e = demo_env and ?st3.0 = st3] h
  have "st3 ''interview_status'' = Some (PStr ''active'')"
    "st3 ''current_question'' = Some (PInt 0)" by blast+
  moreover from m have "message_count (Inr st3) = Some 1" by (simp add: message_count_def)
  ultimately show ?thesis using f m by blast
qed

section \<open>Missing application context\<close>

text \<open>
  With no application details, with details that have no job, and with a job that has none
  of the optional attributes, the system prompt is built from the defaults.
\<close>

lemma system_prompt_without_optional_context:
  "system_prompt_of e PNone = Inr default_system_prompt"
  "system_prompt_of e (PDict [(''applicantName'', PStr name)]) = Inr default_system_prompt"
  "system_prompt_of e (PDict [(''job'', PDict [(''title'', PStr title)])])
     = Inr (english_prompt ''the company'')"
  by (simp_all add: system_prompt_of_def cv_summary_parts_def py_get_def py_lower_def
      py_or_def py_str_def lower_str_def lower_char_def upper_letters_def lower_letters_def
      ebind_simps Let_def)

text \<open>
  Claim C9 asks that no value of the application context makes a turn fail. A job whose
  \<^verbatim>\<open>interviewLanguage\<close> is present with the value \<^verbatim>\<open>None\<close> does: the default of
  \<^verbatim>\<open>.get('interviewLanguage', 'english')\<close> applies to an absent key only, and
  \<^verbatim>\<open>.lower()\<close> is then called on \<^verbatim>\<open>None\<close>, in \<^verbatim>\<open>call_llm\<close> (line 24) and in
  \<^verbatim>\<open>create_initial_session_state\<close> (line 13) alike, whatever the model and the clock are.
\<close>

theorem call_llm_raises_on_null_language:
  "call_llm e (map_of [(''messages'', PList [PMessage ''human'' ''Start conversation'']),
                       (''application_details'', null_language_details)])
     = Inl AttributeError
   \<and> create_initial_session_state now
       \<lparr>md_session_id = PStr ''rec-i'', md_participant_name = PStr ''Sam'',
        md_start_time = PTime 1, md_application_details = null_language_details\<rparr>
     = Inl AttributeError"
  by (simp add: call_llm_def system_prompt_of_def create_initial_session_state_def
      null_language_details_def state_get_def py_get_def py_lower_def ebind_simps Let_def)

section \<open>Commit and side effects\<close>










end
